theory Spec2Isabelle
  imports Main "HOL-Library.Sublist"
begin

section \<open>Constants of \<open>main.ts\<close>\<close>

definition STATIC_CACHE_MAX_AGE :: int where
  "STATIC_CACHE_MAX_AGE = 31536000"

definition DYNAMIC_CACHE_MAX_AGE :: int where
  "DYNAMIC_CACHE_MAX_AGE = 3600"

definition RATE_LIMIT :: int where
  "RATE_LIMIT = 50"

definition RATE_WINDOW :: int where
  "RATE_WINDOW = 30000"

section \<open>The rate limiter\<close>

text \<open>
  \<open>rateLimitStore\<close> is a \<open>Map<string, {count, timestamp}>\<close>. The module-level map is
  passed explicitly and returned updated. \<open>Date.now()\<close> is an integer number of
  milliseconds; the reading of the clock is a parameter of every operation that takes it.
\<close>

record entry =
  count :: int
  timestamp :: int

type_synonym store = "string \<rightharpoonup> entry"

record decision =
  allowed :: bool
  remaining :: int
  reset :: int

definition checkRateLimit :: "int \<Rightarrow> string \<Rightarrow> store \<Rightarrow> decision \<times> store" where
  "checkRateLimit now ip rateLimitStore =
     (case rateLimitStore ip of
        None \<Rightarrow>
          (\<lparr>allowed = True, remaining = RATE_LIMIT - 1, reset = now + RATE_WINDOW\<rparr>,
           rateLimitStore(ip \<mapsto> \<lparr>count = 1, timestamp = now\<rparr>))
      | Some userRateLimit \<Rightarrow>
          if now - timestamp userRateLimit > RATE_WINDOW then
            (\<lparr>allowed = True, remaining = RATE_LIMIT - 1, reset = now + RATE_WINDOW\<rparr>,
             rateLimitStore(ip \<mapsto> \<lparr>count = 1, timestamp = now\<rparr>))
          else if count userRateLimit \<ge> RATE_LIMIT then
            (\<lparr>allowed = False, remaining = 0,
              reset = timestamp userRateLimit + RATE_WINDOW\<rparr>,
             rateLimitStore)
          else
            (let bumped = userRateLimit\<lparr>count := count userRateLimit + 1\<rparr>
             in (\<lparr>allowed = True, remaining = RATE_LIMIT - count bumped,
                  reset = timestamp bumped + RATE_WINDOW\<rparr>,
                 rateLimitStore(ip \<mapsto> bumped))))"

text \<open>
  The body of the \<open>setInterval\<close> callback: every entry older than the window is deleted.
  Deleting the current key while iterating a JavaScript \<open>Map\<close> is safe, so the loop is
  a filter of the table.
\<close>

definition sweep :: "int \<Rightarrow> store \<Rightarrow> store" where
  "sweep now rateLimitStore =
     (\<lambda>ip. case rateLimitStore ip of
              None \<Rightarrow> None
            | Some data \<Rightarrow> if now - timestamp data > RATE_WINDOW then None else Some data)"

text \<open>
  A run of the limiter: calls of \<open>checkRateLimit\<close> and firings of the sweep, each with
  the clock reading it sees. The run returns the decisions of the calls, in order.
\<close>

datatype event = Check int string | Sweep int

fun time_of :: "event \<Rightarrow> int" where
  "time_of (Check t ip) = t"
| "time_of (Sweep t) = t"

fun is_Check :: "event \<Rightarrow> bool" where
  "is_Check (Check t ip) = True"
| "is_Check (Sweep t) = False"

fun run :: "store \<Rightarrow> event list \<Rightarrow> decision list \<times> store" where
  "run s [] = ([], s)"
| "run s (Check t ip # es) =
     (case checkRateLimit t ip s of (d, s') \<Rightarrow>
        (case run s' es of (ds, s'') \<Rightarrow> (d # ds, s'')))"
| "run s (Sweep t # es) = run (sweep t s) es"

definition within_limit :: "store \<Rightarrow> bool" where
  "within_limit s = (\<forall>ip e. s ip = Some e \<longrightarrow> count e \<le> RATE_LIMIT)"

section \<open>Strings and numbers of the platform\<close>

text \<open>
  JavaScript strings are modelled by \<open>string\<close>, read as the UTF-8 bytes of the text;
  every string literal of the source is ASCII. \<open>Uint8Array\<close> bodies are byte lists of
  the same type. The numbers of the source (counts, clock readings, chain ids, lengths) are
  integers far below \<open>2^53\<close>, so they are modelled by \<open>int\<close>.
\<close>

fun digits :: "nat \<Rightarrow> string" where
  "digits n =
     (if n < 10 then [''0123456789'' ! n]
      else digits (n div 10) @ [''0123456789'' ! (n mod 10)])"

declare digits.simps [simp del]

text \<open>\<open>Number.prototype.toString\<close> on an integer value below \<open>10^21\<close> in size, where
  JavaScript prints all decimal digits.\<close>

definition toString :: "int \<Rightarrow> string" where
  "toString i = (if i < 0 then CHR ''-'' # digits (nat (- i)) else digits (nat i))"

text \<open>\<open>Math.ceil(x / 1000)\<close> for an integer \<open>x\<close>.\<close>

definition ceil_div_1000 :: "int \<Rightarrow> int" where
  "ceil_div_1000 x = - ((- x) div 1000)"

text \<open>\<open>String.prototype.includes\<close>, \<open>startsWith\<close> and a match of a regular
  expression \<open>\.(..|..)$\<close>, which is a test of the end of the string.\<close>

fun str_includes :: "string \<Rightarrow> string \<Rightarrow> bool" where
  "str_includes [] needle = (needle = [])"
| "str_includes (c # cs) needle = (prefix needle (c # cs) \<or> str_includes cs needle)"

definition startsWith :: "string \<Rightarrow> string \<Rightarrow> bool" where
  "startsWith s p = prefix p s"

definition matches_static_extension :: "string \<Rightarrow> bool" where
  "matches_static_extension s =
     (suffix ''.ico'' s \<or> suffix ''.png'' s \<or> suffix ''.svg'' s \<or> suffix ''.webmanifest'' s)"

subsection \<open>UTF-8\<close>

text \<open>
  \<open>Response.text()\<close> decodes the body with the UTF-8 decoder of the Encoding Standard:
  a leading byte order mark is dropped, and every ill-formed sequence becomes U+FFFD.
  The state of the decoder is the code point under construction, the number of
  continuation bytes still needed, and the bounds of the next continuation byte. A byte
  that is not a valid continuation is processed again in the initial state.
\<close>

function utf8_decoder :: "nat \<Rightarrow> nat \<Rightarrow> nat \<Rightarrow> nat \<Rightarrow> string \<Rightarrow> nat list" where
  "utf8_decoder cp needed lo hi [] = (if needed \<noteq> 0 then [0xFFFD] else [])"
| "utf8_decoder cp needed lo hi (c # cs) =
     (let b = (of_char c :: nat) in
      if needed = 0 then
        (if b \<le> 0x7F then b # utf8_decoder 0 0 0x80 0xBF cs
         else if 0xC2 \<le> b \<and> b \<le> 0xDF then utf8_decoder (b mod 32) 1 0x80 0xBF cs
         else if 0xE0 \<le> b \<and> b \<le> 0xEF then
           utf8_decoder (b mod 16) 2 (if b = 0xE0 then 0xA0 else 0x80)
             (if b = 0xED then 0x9F else 0xBF) cs
         else if 0xF0 \<le> b \<and> b \<le> 0xF4 then
           utf8_decoder (b mod 8) 3 (if b = 0xF0 then 0x90 else 0x80)
             (if b = 0xF4 then 0x8F else 0xBF) cs
         else 0xFFFD # utf8_decoder 0 0 0x80 0xBF cs)
      else if b < lo \<or> hi < b then 0xFFFD # utf8_decoder 0 0 0x80 0xBF (c # cs)
      else if needed = 1 then (cp * 64 + b mod 64) # utf8_decoder 0 0 0x80 0xBF cs
      else utf8_decoder (cp * 64 + b mod 64) (needed - 1) 0x80 0xBF cs)"
  by pat_completeness auto
termination
  by (relation "measure (\<lambda>(cp, needed, lo, hi, cs). 2 * length cs + (if needed = 0 then 0 else 1))")
    auto

declare utf8_decoder.simps [simp del]

definition utf8_decode :: "string \<Rightarrow> nat list" where
  "utf8_decode bs =
     utf8_decoder 0 0 0x80 0xBF
       (if prefix [CHR 0xEF, CHR 0xBB, CHR 0xBF] bs then drop 3 bs else bs)"

text \<open>\<open>new TextEncoder().encode\<close>: the UTF-8 encoding of a sequence of scalar values.\<close>

definition utf8_encode_char :: "nat \<Rightarrow> string" where
  "utf8_encode_char cp =
     (if cp < 0x80 then [char_of cp]
      else if cp < 0x800 then [char_of (0xC0 + cp div 64), char_of (0x80 + cp mod 64)]
      else if cp < 0x10000 then
        [char_of (0xE0 + cp div 4096), char_of (0x80 + cp div 64 mod 64),
         char_of (0x80 + cp mod 64)]
      else
        [char_of (0xF0 + cp div 262144), char_of (0x80 + cp div 4096 mod 64),
         char_of (0x80 + cp div 64 mod 64), char_of (0x80 + cp mod 64)])"

definition utf8_encode :: "nat list \<Rightarrow> string" where
  "utf8_encode cps = concat (map utf8_encode_char cps)"

section \<open>Errors\<close>

text \<open>A thrown exception is a value: \<open>Error\<close> carries the message of \<open>new Error(..)\<close>,
  \<open>TypeError\<close> the one the \<open>Response\<close> constructor raises.\<close>

datatype error = Error string | TypeError string

text \<open>The error of both chain lookups: \<open>new Error(`Unsupported chain ID: ${inputChain}`)\<close>.\<close>

definition UnsupportedChain :: "int \<Rightarrow> error" where
  "UnsupportedChain inputChain = Error (''Unsupported chain ID: '' @ toString inputChain)"

section \<open>Headers and responses\<close>

text \<open>
  A \<open>Headers\<close> object is a list of pairs whose names are kept in lower case, as the
  platform does; \<open>get\<close> and \<open>set\<close> lower the name they are given. \<open>set\<close> replaces the
  first header of that name and removes the others, or appends a new one.
\<close>

type_synonym headers = "(string \<times> string) list"

definition lower_char :: "char \<Rightarrow> char" where
  "lower_char c =
     (if 65 \<le> (of_char c :: nat) \<and> (of_char c :: nat) \<le> 90
      then char_of ((of_char c :: nat) + 32) else c)"

definition lower :: "string \<Rightarrow> string" where
  "lower s = map lower_char s"

fun headers_put :: "string \<Rightarrow> string \<Rightarrow> headers \<Rightarrow> headers" where
  "headers_put k v [] = [(k, v)]"
| "headers_put k v (h # hs) =
     (if fst h = k then (k, v) # filter (\<lambda>p. fst p \<noteq> k) hs
      else h # headers_put k v hs)"

definition headers_set :: "string \<Rightarrow> string \<Rightarrow> headers \<Rightarrow> headers" where
  "headers_set name v hs = headers_put (lower name) v hs"

definition headers_get :: "headers \<Rightarrow> string \<Rightarrow> string option" where
  "headers_get hs name = map_of hs (lower name)"

text \<open>\<open>new Headers({..})\<close> from an object literal, whose names are distinct.\<close>

definition new_Headers :: "(string \<times> string) list \<Rightarrow> headers" where
  "new_Headers init = map (\<lambda>(name, v). (lower name, v)) init"

record response =
  status :: int
  headers :: headers
  body :: string

text \<open>
  \<open>new Response(body, {status, headers})\<close>. A null body status with a body is a
  \<open>TypeError\<close>. A string body gets the content type of text when the headers have none;
  a byte body gets no content type.
\<close>

definition null_body_status :: "int \<Rightarrow> bool" where
  "null_body_status st = (st \<in> {101, 103, 204, 205, 304})"

definition new_Response_text :: "string \<Rightarrow> int \<Rightarrow> headers \<Rightarrow> response" where
  "new_Response_text b st hs =
     \<lparr>status = st,
      headers = (if map_of hs ''content-type'' = None
                 then hs @ [(''content-type'', ''text/plain;charset=UTF-8'')] else hs),
      body = b\<rparr>"

definition new_Response_bytes :: "string \<Rightarrow> int \<Rightarrow> headers \<Rightarrow> error + response" where
  "new_Response_bytes b st hs =
     (if null_body_status st then Inl (TypeError ''Response with null body status cannot have body'')
      else Inr \<lparr>status = st, headers = hs, body = b\<rparr>)"

definition ok :: "response \<Rightarrow> bool" where
  "ok r = (200 \<le> status r \<and> status r \<le> 299)"

definition addRateLimitHeaders :: "headers \<Rightarrow> decision \<Rightarrow> headers" where
  "addRateLimitHeaders hs rateLimitInfo =
     headers_set ''X-RateLimit-Reset'' (toString (ceil_div_1000 (reset rateLimitInfo)))
       (headers_set ''X-RateLimit-Remaining'' (toString (remaining rateLimitInfo))
          (headers_set ''X-RateLimit-Limit'' (toString RATE_LIMIT) hs))"

section \<open>Response compression\<close>

text \<open>
  \<open>gzip\<close> is the function of the \<open>denoflate\<close> package; it is a parameter of the model.
  The body is read as text and encoded again before it is compressed.
\<close>

definition compressResponse :: "(string \<Rightarrow> string) \<Rightarrow> response \<Rightarrow> error + response" where
  "compressResponse gzip r =
     (let text = utf8_decode (body r);
          compressed = gzip (utf8_encode text);
          hs = headers_set ''Content-Length'' (toString (int (length compressed)))
                 (headers_set ''Content-Encoding'' ''gzip'' (headers r))
      in new_Response_bytes compressed (status r) hs)"

section \<open>Widget helper functions\<close>

definition DEBRIDGE_REFERRAL_CODE :: string where
  "DEBRIDGE_REFERRAL_CODE = ''31021''"

definition JUPITER_REFERRAL_PUBKEY :: string where
  "JUPITER_REFERRAL_PUBKEY = ''FP5JGryFjTNdYustodtw9zLV31fdds5vvieW7TYzP8VJ''"

definition JUPITER_REFERRAL_LINK :: string where
  "JUPITER_REFERRAL_LINK =
     ''https://jup.ag/?referrer=FP5JGryFjTNdYustodtw9zLV31fdds5vvieW7TYzP8VJ&feeBps=100''"

definition SOLANA_PUBLIC_KEY :: string where
  "SOLANA_PUBLIC_KEY = ''FWBUqaHuaRPpN4BsbcP255RVUezvf67n2zYGY6SrZfzZ''"

definition EVM_RECIPIENT :: string where
  "EVM_RECIPIENT = ''0xe83A14f6eae56B0b30465B48a2DE75B2DF895223''"

definition SUPPORTED_CHAINS_EVM :: "int list" where
  "SUPPORTED_CHAINS_EVM = [1, 10, 56, 137, 8453, 42161, 43114]"

definition SUPPORTED_CHAINS_SOLANA :: "int list" where
  "SUPPORTED_CHAINS_SOLANA = [7565164]"

definition getAffiliateFeeRecipient :: "int \<Rightarrow> error + string" where
  "getAffiliateFeeRecipient inputChain =
     (if inputChain \<in> set SUPPORTED_CHAINS_SOLANA then Inr SOLANA_PUBLIC_KEY
      else if inputChain \<in> set SUPPORTED_CHAINS_EVM then Inr EVM_RECIPIENT
      else Inl (UnsupportedChain inputChain))"

definition getReferralKey :: "int \<Rightarrow> error + string" where
  "getReferralKey inputChain =
     (if inputChain \<in> set SUPPORTED_CHAINS_SOLANA then Inr JUPITER_REFERRAL_PUBKEY
      else if inputChain \<in> set SUPPORTED_CHAINS_EVM then Inr DEBRIDGE_REFERRAL_CODE
      else Inl (UnsupportedChain inputChain))"

section \<open>The widget configuration\<close>

text \<open>
  The values that occur in the configuration object, and \<open>JSON.stringify\<close> on them. The
  members of an object are listed in the order in which JavaScript enumerates them:
  integer keys in ascending order, then the other keys in the order of the literal. The
  object literals of the source already list their integer keys in ascending order.
\<close>

datatype json =
    JString string
  | JNumber int
  | JBool bool
  | JArray "json list"
  | JObject "(string \<times> json) list"

definition hex_digit :: "nat \<Rightarrow> char" where
  "hex_digit n = ''0123456789abcdef'' ! n"

definition quote_char :: "char \<Rightarrow> string" where
  "quote_char c =
     (if c = CHR 0x22 then [CHR 0x5C, CHR 0x22]
      else if c = CHR 0x5C then [CHR 0x5C, CHR 0x5C]
      else if c = CHR 0x08 then [CHR 0x5C, CHR ''b'']
      else if c = CHR 0x09 then [CHR 0x5C, CHR ''t'']
      else if c = CHR 0x0A then [CHR 0x5C, CHR ''n'']
      else if c = CHR 0x0C then [CHR 0x5C, CHR ''f'']
      else if c = CHR 0x0D then [CHR 0x5C, CHR ''r'']
      else if (of_char c :: nat) < 0x20 then
        [CHR 0x5C, CHR ''u'', CHR ''0'', CHR ''0'',
         hex_digit ((of_char c :: nat) div 16), hex_digit ((of_char c :: nat) mod 16)]
      else [c])"

definition quote :: "string \<Rightarrow> string" where
  "quote s = [CHR 0x22] @ concat (map quote_char s) @ [CHR 0x22]"

fun join :: "string \<Rightarrow> string list \<Rightarrow> string" where
  "join sep [] = []"
| "join sep [x] = x"
| "join sep (x # y # ys) = x @ sep @ join sep (y # ys)"

fun JSON_stringify :: "json \<Rightarrow> string"
  and stringify_elements :: "json list \<Rightarrow> string list"
  and stringify_members :: "(string \<times> json) list \<Rightarrow> string list" where
  "JSON_stringify (JString s) = quote s"
| "JSON_stringify (JNumber n) = toString n"
| "JSON_stringify (JBool b) = (if b then ''true'' else ''false'')"
| "JSON_stringify (JArray xs) = ''['' @ join '','' (stringify_elements xs) @ '']''"
| "JSON_stringify (JObject ms) = ''{'' @ join '','' (stringify_members ms) @ ''}''"
| "stringify_elements [] = []"
| "stringify_elements (x # xs) = JSON_stringify x # stringify_elements xs"
| "stringify_members [] = []"
| "stringify_members (m # ms) =
     (quote (fst m) @ '':'' @ JSON_stringify (snd m)) # stringify_members ms"

definition inputChains :: json where
  "inputChains = JObject [
       (''1'', JArray [JString '''', JString ''0xdac17f958d2ee523a2206206994597c13d831ec7'', JString ''0xa0b86991c6218b36c1d19d4a2e9eb0ce3606eb48'', JString ''0x6b175474e89094c44da98b954eedeac495271d0f'', JString ''0xc02aaa39b223fe8d0a0e5c4f27ead9083c756cc2'']),
       (''10'', JArray [JString '''', JString ''0x4200000000000000000000000000000000000042'', JString ''0x94b008aa00579c1307b0ef2c499ad98a8ce58e58'', JString ''0x0b2c639c533813f4aa9d7837caf62653d097ff85'', JString ''0xda10009cbd5d07dd0cecc66161fc93d7c9000da1'', JString ''0x4200000000000000000000000000000000000006'']),
       (''56'', JArray [JString '''', JString ''0x55d398326f99059ff775485246999027b3197955'', JString ''0x8ac76a51cc950d9822d68b83fe1ad97b32cd580d'', JString ''0x1af3f329e8be154074d8769d1ffa4ee058b1dbc3'', JString ''0xbb4cdb9cbd36b01bd1cbaebf2de08d9173bc095c'']),
       (''137'', JArray [JString '''', JString ''0xc2132d05d31c914a87c6611c10748aeb04b58e8f'', JString ''0x3c499c542cef5e3811e1192ce70d8cc03d5c3359'', JString ''0x8f3cf7ad23cd3cadbd9735aff958023239c6a063'', JString ''0x7ceb23fd6bc0add59e62ac25578270cff1b9f619'']),
       (''8453'', JArray [JString '''', JString ''0xfde4c96c8593536e31f229ea8f37b2ada2699bb2'', JString ''0x833589fcd6edb6e08f4c7c32d4f71b54bda02913'', JString ''0x50c5725949a6f0c72e6c4a641f24049a917db0cb'', JString ''0x4200000000000000000000000000000000000006'', JString ''0x506beb7965fc7053059006c7ab4c62c02c2d989f'']),
       (''42161'', JArray [JString '''', JString ''0x912ce59144191c1204e64559fe8253a0e49e6548'', JString ''0xfd086bc7cd5c481dcc9c85ebe478a1c0b69fcbb9'', JString ''0xaf88d065e77c8cc2239327c5edb3a432268e5831'', JString ''0xda10009cbd5d07dd0cecc66161fc93d7c9000da1'']),
       (''43114'', JArray [JString '''', JString ''0x9702230a8ea53601f5cd2dc00fdbc13d4df4a8c7'', JString ''0xb97ef9ef8734c71904d8002f8b6bc66dd9c48a6e'', JString ''0xd586e7f844cea2f87f50152665bcbc2c279d8d70'', JString ''0xb31f66aa3c1e785363f0875a1b74e27b85fd66c7'']),
       (''7565164'', JArray [JString '''', JString ''So11111111111111111111111111111111111111112'', JString ''HAqD46mR4LgY3aJiMZSabfefZoysG3Uuj6wn2ZKYE14v'', JString ''Es9vMFrzaCERmJfrF4H2FYD4KCoNkY11McCe8BenwNYB'', JString ''EPjFWdd5AufqSSqeM2qN1xzybapC8G4wEGGkZwyTDt1v''])]"

definition outputChains :: json where
  "outputChains = JObject [
       (''1'', JArray [JString '''', JString ''0xdac17f958d2ee523a2206206994597c13d831ec7'', JString ''0xa0b86991c6218b36c1d19d4a2e9eb0ce3606eb48'', JString ''0x6b175474e89094c44da98b954eedeac495271d0f'', JString ''0xc02aaa39b223fe8d0a0e5c4f27ead9083c756cc2'']),
       (''10'', JArray [JString '''', JString ''0x4200000000000000000000000000000000000042'', JString ''0x94b008aa00579c1307b0ef2c499ad98a8ce58e58'', JString ''0x0b2c639c533813f4aa9d7837caf62653d097ff85'', JString ''0xda10009cbd5d07dd0cecc66161fc93d7c9000da1'', JString ''0x4200000000000000000000000000000000000006'']),
       (''56'', JArray [JString '''', JString ''0x55d398326f99059ff775485246999027b3197955'', JString ''0x8ac76a51cc950d9822d68b83fe1ad97b32cd580d'', JString ''0x1af3f329e8be154074d8769d1ffa4ee058b1dbc3'', JString ''0xbb4cdb9cbd36b01bd1cbaebf2de08d9173bc095c'']),
       (''137'', JArray [JString '''', JString ''0xc2132d05d31c914a87c6611c10748aeb04b58e8f'', JString ''0x3c499c542cef5e3811e1192ce70d8cc03d5c3359'', JString ''0x8f3cf7ad23cd3cadbd9735aff958023239c6a063'', JString ''0x7ceb23fd6bc0add59e62ac25578270cff1b9f619'']),
       (''8453'', JArray [JString '''', JString ''0xfde4c96c8593536e31f229ea8f37b2ada2699bb2'', JString ''0x833589fcd6edb6e08f4c7c32d4f71b54bda02913'', JString ''0x50c5725949a6f0c72e6c4a641f24049a917db0cb'', JString ''0x4200000000000000000000000000000000000006'', JString ''0x506beb7965fc7053059006c7ab4c62c02c2d989f'']),
       (''42161'', JArray [JString '''', JString ''0x912ce59144191c1204e64559fe8253a0e49e6548'', JString ''0xfd086bc7cd5c481dcc9c85ebe478a1c0b69fcbb9'', JString ''0xaf88d065e77c8cc2239327c5edb3a432268e5831'', JString ''0xda10009cbd5d07dd0cecc66161fc93d7c9000da1'']),
       (''43114'', JArray [JString '''', JString ''0x9702230a8ea53601f5cd2dc00fdbc13d4df4a8c7'', JString ''0xb97ef9ef8734c71904d8002f8b6bc66dd9c48a6e'', JString ''0xd586e7f844cea2f87f50152665bcbc2c279d8d70'', JString ''0xb31f66aa3c1e785363f0875a1b74e27b85fd66c7'']),
       (''7565164'', JArray [JString '''', JString ''So11111111111111111111111111111111111111112'', JString ''HAqD46mR4LgY3aJiMZSabfefZoysG3Uuj6wn2ZKYE14v'', JString ''Es9vMFrzaCERmJfrF4H2FYD4KCoNkY11McCe8BenwNYB'', JString ''EPjFWdd5AufqSSqeM2qN1xzybapC8G4wEGGkZwyTDt1v''])]"

text \<open>
  \<open>WIDGET_CONFIG\<close> is built once, when the module is loaded; a chain lookup that throws
  there makes the load fail.
\<close>

definition WIDGET_CONFIG :: "error + json" where
  "WIDGET_CONFIG =
     (case getReferralKey 1 of
        Inl e \<Rightarrow> Inl e
      | Inr r \<Rightarrow>
     (case getAffiliateFeeRecipient 1 of
        Inl e \<Rightarrow> Inl e
      | Inr affiliateFeeRecipient \<Rightarrow>
      Inr (JObject [
        (''v'', JString ''1''),
        (''element'', JString ''debridgeWidget''),
        (''title'', JString ''J1T.FYI Bridge Gate''),
        (''description'', JString ''Just One Token, Just One Gate''),
        (''width'', JString ''600''),
        (''height'', JString ''800''),
        (''inputChain'', JNumber 1),
        (''outputChain'', JNumber 7565164),
        (''inputCurrency'', JString ''''),
        (''outputCurrency'', JString ''HAqD46mR4LgY3aJiMZSabfefZoysG3Uuj6wn2ZKYE14v''),
        (''address'', JString ''''),
        (''showSwapTransfer'', JBool True),
        (''amount'', JString ''''),
        (''outputAmount'', JString ''''),
        (''isAmountFromNotModifiable'', JBool False),
        (''isAmountToNotModifiable'', JBool False),
        (''lang'', JString ''en''),
        (''mode'', JString ''deswap''),
        (''isEnableCalldata'', JBool False),
        (''styles'', JString ''eyJhcHBCYWNrZ3JvdW5kIjoiIzQ3NDY0NiIsIm1vZGFsQmciOiIjMDAwMDAwIiwiY2hhcnRCZyI6IiMwMDAwMDAiLCJib3JkZXJDb2xvciI6IiMwMDAwMDAiLCJ0b29sdGlwQmciOiIjMDAwMDAwIiwiZm9ybUNvbnRyb2xCZyI6IiMwMjAyMDIiLCJjb250cm9sQm9yZGVyIjoiIzc0NzQ3NCIsInByaW1hcnkiOiIjMDAwMDAwIiwic2Vjb25kYXJ5IjoiIzQ3NDY0NiIsInN1Y2Nlc3MiOiIjMDA2NDA3IiwiZXJyb3IiOiIjY2QwMTAxIiwid2FybmluZyI6IiNlNGU3MDMiLCJmb250Q29sb3IiOiIjRkZGRkZGIiwiZm9udEZhbWlseSI6IkF1ZGlvd2lkZSIsInByaW1hcnlCdG5CZyI6IiM4MzAyMDIiLCJwcmltYXJ5QnRuQmdIb3ZlciI6IiMwYTBhMGEiLCJwcmltYXJ5QnRuVGV4dCI6IiNkNGQ0ZDQiLCJzZWNvbmRhcnlCdG5CZyI6IiM0NzQ2NDYiLCJzZWNvbmRhcnlCdG5CZ0hvdmVyIjoiI2NkNjgwMSIsInNlY29uZGFyeUJ0blRleHQiOiIjZDRkNGQ0Iiwic2Vjb25kYXJ5QnRuT3V0bGluZSI6IiMwYTBhMGEiLCJidG5Gb250V2VpZ2h0Ijo5MDAsImNoYWluQnRuQmciOiIjMDAwMDAwIiwiY2hhaW5CdG5CZ0FjdGl2ZSI6IiMwYzBiMGIiLCJjaGFpbkJ0blBhZGRpbmciOiIyMCJ9''),
        (''modalBg'', JString ''#000000''),
        (''chartBg'', JString ''#000000''),
        (''borderColor'', JString ''#000000''),
        (''tooltipBg'', JString ''#000000''),
        (''formControlBg'', JString ''#020202''),
        (''controlBorder'', JString ''#747474''),
        (''primary'', JString ''#000000''),
        (''secondary'', JString ''#474646''),
        (''success'', JString ''#006407''),
        (''error'', JString ''#cd0101''),
        (''warning'', JString ''#e4e703''),
        (''fontColor'', JString ''#8f8f8f''),
        (''fontFamily'', JString ''Audiowide''),
        (''theme'', JString ''dark''),
        (''isHideLogo'', JBool False),
        (''logo'', JString ''''),
        (''r'', JString r),
        (''affiliateFeeRecipient'', JString affiliateFeeRecipient),
        (''affiliateFeePercent'', JString ''1''),
        (''jupiterRefLink'', JString JUPITER_REFERRAL_LINK),
        (''jupiterRefPubkey'', JString JUPITER_REFERRAL_PUBKEY),
        (''supportedChains'',
           JString (JSON_stringify (JObject [
             (''inputChains'', inputChains),
             (''outputChains'', outputChains)])))])))"

section \<open>The request handler\<close>

text \<open>
  Of a request the handler reads the path and three headers. What it reads from outside
  is collected in \<open>env\<close>: the clock seen by \<open>checkRateLimit\<close>, the clock seen afterwards by
  the rejection branch, the text of \<open>index.html\<close> (\<open>None\<close> when \<open>Deno.readTextFile\<close>
  throws) and the response of \<open>serveDir\<close> (\<open>None\<close> when it throws).
\<close>

record request =
  pathname :: string
  x_forwarded_for :: "string option"
  x_real_ip :: "string option"
  accept_encoding :: "string option"

record env =
  date_now :: int
  date_now_retry :: int
  index_html :: "string option"
  serve_dir :: "response option"

text \<open>\<open>x-forwarded-for?.split(',')[0] || x-real-ip || "unknown"\<close>: an absent or empty
  value falls through.\<close>

definition clientIP :: "request \<Rightarrow> string" where
  "clientIP req =
     (let forwarded = (case x_forwarded_for req of
                         None \<Rightarrow> []
                       | Some v \<Rightarrow> takeWhile (\<lambda>c. c \<noteq> CHR '','') v)
      in if forwarded \<noteq> [] then forwarded
         else (case x_real_ip req of
                 None \<Rightarrow> ''unknown''
               | Some v \<Rightarrow> if v \<noteq> [] then v else ''unknown''))"

definition acceptsGzip :: "request \<Rightarrow> bool" where
  "acceptsGzip req =
     (case accept_encoding req of None \<Rightarrow> False | Some v \<Rightarrow> str_includes v ''gzip'')"

text \<open>The two bare error responses, and the response of the outermost \<open>catch\<close>.\<close>

definition server_error :: response where
  "server_error = new_Response_text ''Server Error'' 500 []"

definition internal_server_error :: response where
  "internal_server_error =
     new_Response_text ''Internal Server Error'' 500
       (new_Headers [(''Content-Type'', ''text/plain''), (''Cache-Control'', ''no-store'')])"

text \<open>
  The \<open>try\<close> block of the handler (lines 286 to 402), with its \<open>catch\<close> clauses.
\<close>

definition handler_try ::
  "(string \<Rightarrow> string) \<Rightarrow> json \<Rightarrow> env \<Rightarrow> request \<Rightarrow> store \<Rightarrow> response \<times> store" where
  "handler_try gzip config env req rateLimitStore =
     (case checkRateLimit (date_now env) (clientIP req) rateLimitStore of
        (rateLimitInfo, store') \<Rightarrow>
     (if \<not> allowed rateLimitInfo then
        (new_Response_text ''Rate limit exceeded'' 429
           (addRateLimitHeaders
              (new_Headers
                 [(''Content-Type'', ''text/plain''),
                  (''Retry-After'',
                   toString (ceil_div_1000 (reset rateLimitInfo - date_now_retry env)))])
              rateLimitInfo),
         store')
      else if pathname req = ''/widget-config'' then
        (let response =
               new_Response_text (JSON_stringify config) 200
                 (addRateLimitHeaders
                    (new_Headers
                       [(''Content-Type'', ''application/json''),
                        (''Cache-Control'', ''public, max-age='' @ toString DYNAMIC_CACHE_MAX_AGE),
                        (''X-Content-Type-Options'', ''nosniff''),
                        (''Access-Control-Allow-Origin'', ''*''),
                        (''Access-Control-Allow-Methods'', ''GET, OPTIONS''),
                        (''Access-Control-Allow-Headers'', ''Content-Type'')])
                    rateLimitInfo)
         in if acceptsGzip req then
              (case compressResponse gzip response of
                 Inl configError \<Rightarrow> (internal_server_error, store')
               | Inr compressed \<Rightarrow> (compressed, store'))
            else (response, store'))
      else if pathname req = ''/'' \<or> pathname req = ''/index.html'' then
        (case index_html env of
           None \<Rightarrow> (server_error, store')
         | Some indexHtml \<Rightarrow>
             (new_Response_text indexHtml 200
                (addRateLimitHeaders
                   (new_Headers
                      [(''content-type'', ''text/html; charset=utf-8''),
                       (''Cache-Control'', ''public, max-age='' @ toString DYNAMIC_CACHE_MAX_AGE)])
                   rateLimitInfo),
              store'))
      else if startsWith (pathname req) ''/assets/'' \<or> matches_static_extension (pathname req) then
        (case serve_dir env of
           None \<Rightarrow> (server_error, store')
         | Some response \<Rightarrow>
             if \<not> ok response then (new_Response_text ''Not Found'' 404 [], store')
             else
               (let response' = response\<lparr>headers :=
                      addRateLimitHeaders
                        (headers_set ''Cache-Control''
                           (if startsWith (pathname req) ''/assets/''
                            then ''public, max-age='' @ toString STATIC_CACHE_MAX_AGE
                            else ''public, max-age='' @ toString DYNAMIC_CACHE_MAX_AGE)
                           (headers response))
                        rateLimitInfo\<rparr>
                in if acceptsGzip req then
                     (case compressResponse gzip response' of
                        Inl error \<Rightarrow> (server_error, store')
                      | Inr compressed \<Rightarrow> (compressed, store'))
                   else (response', store')))
      else
        (new_Response_text ''Not Found'' 404
           (addRateLimitHeaders
              (new_Headers [(''Content-Type'', ''text/plain''), (''Cache-Control'', ''no-store'')])
              rateLimitInfo),
         store')))"

text \<open>
  Line 284, before the \<open>try\<close> block: \<open>console.log(.., await Deno.readDir(".").next())\<close>.
  \<open>Deno.readDir\<close> returns an async iterable, an object whose only member is
  \<open>[Symbol.asyncIterator]\<close>; it has no \<open>next\<close>, so the call throws a \<open>TypeError\<close>.
\<close>

definition Deno_readDir_next :: "error + unit" where
  "Deno_readDir_next = Inl (TypeError ''Deno.readDir(...).next is not a function'')"

text \<open>
  The handler passed to \<open>serve\<close>: line 284, then the \<open>try\<close> block. An exception thrown
  at line 284 is outside the \<open>try\<close>, so the handler throws it and returns no response.
\<close>

definition handler ::
  "(string \<Rightarrow> string) \<Rightarrow> json \<Rightarrow> env \<Rightarrow> request \<Rightarrow> store \<Rightarrow>
     error + response \<times> store" where
  "handler gzip config env req rateLimitStore =
     (case Deno_readDir_next of
        Inl e \<Rightarrow> Inl e
      | Inr u \<Rightarrow> Inr (handler_try gzip config env req rateLimitStore))"

text \<open>
  A sequence of requests handled one after the other, each with its own environment. The
  outcome of a request is the response of the handler or the exception it throws. The
  handler throws only at line 284, before it reads or writes the table, so the table is
  then the one it was given.
\<close>

fun serve ::
  "(string \<Rightarrow> string) \<Rightarrow> json \<Rightarrow> store \<Rightarrow> (env \<times> request) list \<Rightarrow>
     (error + response) list \<times> store" where
  "serve gzip config s [] = ([], s)"
| "serve gzip config s (er # ers) =
     (case handler gzip config (fst er) (snd er) s of
        Inl e \<Rightarrow>
          (case serve gzip config s ers of (rs, s'') \<Rightarrow> (Inl e # rs, s''))
      | Inr (r, s') \<Rightarrow>
          (case serve gzip config s' ers of (rs, s'') \<Rightarrow> (Inr r # rs, s'')))"


section \<open>Predicates of the statements\<close>

text \<open>
  The table of a process that sweeps, seen from the table of one that does not, at clock
  reading \<open>t\<close>: the two agree on an identity, or the first has no entry where the second
  still has one that is older than the window.
\<close>

definition swept_view :: "int \<Rightarrow> store \<Rightarrow> store \<Rightarrow> bool" where
  "swept_view t swept kept =
     (\<forall>ip. swept ip = kept ip \<or>
           (swept ip = None \<and> (\<exists>e. kept ip = Some e \<and> t - timestamp e > RATE_WINDOW)))"

text \<open>A response carries the three rate-limit headers of a decision, or none of them.\<close>

definition carries_rate_limit_headers :: "response \<Rightarrow> decision \<Rightarrow> bool" where
  "carries_rate_limit_headers r rateLimitInfo =
     (headers_get (headers r) ''X-RateLimit-Limit'' = Some (toString RATE_LIMIT) \<and>
      headers_get (headers r) ''X-RateLimit-Remaining'' =
        Some (toString (remaining rateLimitInfo)) \<and>
      headers_get (headers r) ''X-RateLimit-Reset'' =
        Some (toString (ceil_div_1000 (reset rateLimitInfo))))"

definition lacks_rate_limit_headers :: "response \<Rightarrow> bool" where
  "lacks_rate_limit_headers r =
     (headers_get (headers r) ''X-RateLimit-Limit'' = None \<and>
      headers_get (headers r) ''X-RateLimit-Remaining'' = None \<and>
      headers_get (headers r) ''X-RateLimit-Reset'' = None)"

text \<open>The request is routed to the static assets and \<open>serveDir\<close> answers with a
  response that is not \<open>ok\<close>.\<close>

definition asset_not_found :: "env \<Rightarrow> request \<Rightarrow> bool" where
  "asset_not_found env req =
     (pathname req \<noteq> ''/widget-config'' \<and> pathname req \<noteq> ''/'' \<and>
      pathname req \<noteq> ''/index.html'' \<and>
      (startsWith (pathname req) ''/assets/'' \<or> matches_static_extension (pathname req)) \<and>
      (case serve_dir env of None \<Rightarrow> False | Some r \<Rightarrow> \<not> ok r))"

section \<open>Properties of the rate limiter\<close>

lemma checkRateLimit_fresh:
  assumes "s ip = None \<or> (\<exists>e. s ip = Some e \<and> now - timestamp e > RATE_WINDOW)"
  shows "checkRateLimit now ip s =
           (\<lparr>allowed = True, remaining = RATE_LIMIT - 1, reset = now + RATE_WINDOW\<rparr>,
            s(ip \<mapsto> \<lparr>count = 1, timestamp = now\<rparr>))"
  using assms by (auto simp: checkRateLimit_def)

lemma checkRateLimit_bump:
  assumes "s ip = Some e" "now - timestamp e \<le> RATE_WINDOW" "count e < RATE_LIMIT"
  shows "checkRateLimit now ip s =
           (\<lparr>allowed = True, remaining = RATE_LIMIT - (count e + 1),
             reset = timestamp e + RATE_WINDOW\<rparr>,
            s(ip \<mapsto> e\<lparr>count := count e + 1\<rparr>))"
  using assms by (simp add: checkRateLimit_def Let_def)

lemma checkRateLimit_full:
  assumes "s ip = Some e" "now - timestamp e \<le> RATE_WINDOW" "count e \<ge> RATE_LIMIT"
  shows "checkRateLimit now ip s =
           (\<lparr>allowed = False, remaining = 0, reset = timestamp e + RATE_WINDOW\<rparr>, s)"
  using assms by (simp add: checkRateLimit_def)

lemma fst_run_Check:
  "fst (run s (Check t ip # es)) =
     fst (checkRateLimit t ip s) # fst (run (snd (checkRateLimit t ip s)) es)"
  by (simp split: prod.splits)

lemma snd_run_Check:
  "snd (run s (Check t ip # es)) = snd (run (snd (checkRateLimit t ip s)) es)"
  by (simp split: prod.splits)

lemma run_in_window:
  assumes "s ip = Some \<lparr>count = c, timestamp = t1\<rparr>"
    and "\<forall>t \<in> set ts. t - t1 \<le> RATE_WINDOW"
    and "c + int (length ts) \<le> RATE_LIMIT"
  shows "fst (run s (map (\<lambda>t. Check t ip) ts)) =
           map (\<lambda>k. \<lparr>allowed = True, remaining = RATE_LIMIT - c - 1 - int k,
                      reset = t1 + RATE_WINDOW\<rparr>) [0..<length ts]"
  using assms
proof (induction ts arbitrary: s c)
  case Nil
  then show ?case by simp
next
  case (Cons t ts)
  let ?e = "\<lparr>count = c, timestamp = t1\<rparr>"
  let ?s' = "s(ip \<mapsto> ?e\<lparr>count := c + 1\<rparr>)"
  have step: "checkRateLimit t ip s =
      (\<lparr>allowed = True, remaining = RATE_LIMIT - (c + 1), reset = t1 + RATE_WINDOW\<rparr>, ?s')"
    using checkRateLimit_bump [of s ip ?e t] Cons.prems by simp
  have rest: "fst (run ?s' (map (\<lambda>t. Check t ip) ts)) =
      map (\<lambda>k. \<lparr>allowed = True, remaining = RATE_LIMIT - (c + 1) - 1 - int k,
                 reset = t1 + RATE_WINDOW\<rparr>) [0..<length ts]"
    using Cons.prems by (intro Cons.IH) auto
  have shift: "map (\<lambda>k. \<lparr>allowed = True, remaining = RATE_LIMIT - c - 1 - int k,
                 reset = t1 + RATE_WINDOW\<rparr>) [0..<Suc (length ts)] =
      \<lparr>allowed = True, remaining = RATE_LIMIT - c - 1, reset = t1 + RATE_WINDOW\<rparr> #
      map (\<lambda>k. \<lparr>allowed = True, remaining = RATE_LIMIT - (c + 1) - 1 - int k,
                 reset = t1 + RATE_WINDOW\<rparr>) [0..<length ts]"
    by (simp add: map_upt_Suc algebra_simps del: upt_Suc)
  have "fst (run s (map (\<lambda>t. Check t ip) (t # ts))) =
      fst (checkRateLimit t ip s) # fst (run (snd (checkRateLimit t ip s)) (map (\<lambda>t. Check t ip) ts))"
    by (simp only: list.map fst_run_Check)
  also have "\<dots> = \<lparr>allowed = True, remaining = RATE_LIMIT - c - 1, reset = t1 + RATE_WINDOW\<rparr> #
      map (\<lambda>k. \<lparr>allowed = True, remaining = RATE_LIMIT - (c + 1) - 1 - int k,
                 reset = t1 + RATE_WINDOW\<rparr>) [0..<length ts]"
    by (simp only: step rest fst_conv snd_conv) simp
  finally show ?case
    by (simp only: shift length_Cons)
qed

text \<open>
  C1. For one identity, let the first of \<open>N\<close> consecutive calls open a window at time
  \<open>t1\<close> (no entry yet, or an expired one), and let every later call fall within that
  window (its clock reading is at most the window duration after \<open>t1\<close>). If \<open>N\<close> is at
  most the limit, there are \<open>N\<close> decisions, and the \<open>k\<close>-th call (counting from 1)
  is allowed with \<open>remaining = RATE_LIMIT - k\<close>; the last one has
  \<open>remaining = RATE_LIMIT - N\<close>.
\<close>

theorem C1_within_window_admitted:
  assumes fresh: "s ip = None \<or> (\<exists>e. s ip = Some e \<and> t1 - timestamp e > RATE_WINDOW)"
    and window: "\<forall>t \<in> set ts. t - t1 \<le> RATE_WINDOW"
    and limit: "int (length (t1 # ts)) \<le> RATE_LIMIT"
    and ds: "ds = fst (run s (map (\<lambda>t. Check t ip) (t1 # ts)))"
  shows "length ds = length (t1 # ts) \<and>
         (\<forall>k < length ds. allowed (ds ! k) \<and> remaining (ds ! k) = RATE_LIMIT - (int k + 1)) \<and>
         remaining (last ds) = RATE_LIMIT - int (length (t1 # ts))"
proof -
  let ?s' = "s(ip \<mapsto> \<lparr>count = 1, timestamp = t1\<rparr>)"
  let ?f = "\<lambda>k. \<lparr>allowed = True, remaining = RATE_LIMIT - 1 - 1 - int k,
                  reset = t1 + RATE_WINDOW\<rparr>"
  have first: "checkRateLimit t1 ip s =
      (\<lparr>allowed = True, remaining = RATE_LIMIT - 1, reset = t1 + RATE_WINDOW\<rparr>, ?s')"
    using fresh by (rule checkRateLimit_fresh)
  have rest: "fst (run ?s' (map (\<lambda>t. Check t ip) ts)) = map ?f [0..<length ts]"
    using window limit by (intro run_in_window) auto
  have ds_eq: "ds = \<lparr>allowed = True, remaining = RATE_LIMIT - 1, reset = t1 + RATE_WINDOW\<rparr> #
      map ?f [0..<length ts]"
    unfolding ds by (simp only: list.map fst_run_Check first rest fst_conv snd_conv)
  have len: "length ds = length (t1 # ts)"
    by (simp add: ds_eq)
  have each: "allowed (ds ! k) \<and> remaining (ds ! k) = RATE_LIMIT - (int k + 1)"
    if "k < length ds" for k
  proof (cases k)
    case 0
    then show ?thesis by (simp add: ds_eq)
  next
    case (Suc j)
    with that len have "j < length ts" by simp
    then show ?thesis by (simp add: ds_eq Suc del: upt_Suc)
  qed
  have final: "remaining (last ds) = RATE_LIMIT - int (length (t1 # ts))"
  proof (cases ts)
    case Nil
    then show ?thesis by (simp add: ds_eq)
  next
    case (Cons u us)
    then have "last ds = ?f (length us)"
      by (simp add: ds_eq last_map del: upt_Suc)
    then show ?thesis by (simp add: Cons)
  qed
  from len each final show ?thesis by blast
qed

theorem C1_witness:
  "(Map.empty :: store) ''10.0.0.1'' = None \<and>
   2000 - 1000 \<le> RATE_WINDOW \<and> 31000 - 1000 \<le> RATE_WINDOW \<and>
   int (length [1000, 2000, 31000 :: int]) \<le> RATE_LIMIT \<and>
   length (fst (run Map.empty (map (\<lambda>t. Check t ''10.0.0.1'') [1000, 2000, 31000]))) = 3 \<and>
   remaining (last (fst (run Map.empty (map (\<lambda>t. Check t ''10.0.0.1'') [1000, 2000, 31000]))))
     = RATE_LIMIT - 3"
  using C1_within_window_admitted [of Map.empty "''10.0.0.1''" 1000 "[2000, 31000]"
      "fst (run Map.empty (map (\<lambda>t. Check t ''10.0.0.1'') [1000, 2000, 31000]))"]
  by (simp add: RATE_WINDOW_def RATE_LIMIT_def)

subsection \<open>Rejection\<close>

lemma snd_handler_try:
  "snd (handler_try gz cfg env req s) = snd (checkRateLimit (date_now env) (clientIP req) s)"
  by (simp add: handler_try_def Let_def split: prod.splits option.splits sum.splits)

subsection \<open>The bound on the counters\<close>

lemma within_limit_checkRateLimit:
  assumes "within_limit s"
  shows "within_limit (snd (checkRateLimit now ip s))"
  using assms
  by (auto simp: within_limit_def checkRateLimit_def Let_def RATE_LIMIT_def
      split: option.splits if_splits)

lemma within_limit_sweep:
  assumes "within_limit s"
  shows "within_limit (sweep now s)"
  using assms by (auto simp: within_limit_def sweep_def split: option.splits if_splits)

text \<open>
  C3. The table invariant: if no stored counter exceeds the limit, then after any run of
  calls of \<open>checkRateLimit\<close> (for any identities, at any clock readings, with sweeps in
  between) no stored counter exceeds the limit. The empty table of a fresh process
  satisfies the invariant.
\<close>

theorem C3_count_never_exceeds_limit:
  assumes "within_limit s"
  shows "within_limit (snd (run s es))"
  using assms
proof (induction s es rule: run.induct)
  case (1 s)
  then show ?case by simp
next
  case (2 s t ip es)
  have "within_limit (snd (checkRateLimit t ip s))"
    using "2.prems" by (rule within_limit_checkRateLimit)
  then have "within_limit (snd (run (snd (checkRateLimit t ip s)) es))"
    using "2.IH" [of "fst (checkRateLimit t ip s)" "snd (checkRateLimit t ip s)"] by simp
  then show ?case by (simp only: snd_run_Check)
next
  case (3 s t es)
  then show ?case by (simp add: within_limit_sweep)
qed

theorem C3_witness:
  "within_limit Map.empty \<and>
   within_limit (snd (run Map.empty [Check 0 ''a'', Check 1 ''b'', Sweep 40000, Check 40001 ''a'']))"
  using C3_count_never_exceeds_limit
    [of Map.empty "[Check 0 ''a'', Check 1 ''b'', Sweep 40000, Check 40001 ''a'']"]
  by (simp add: within_limit_def)

subsection \<open>Window reset\<close>

text \<open>
  C4, as the code has it. When the identity has an entry whose age (\<open>now\<close> minus its
  \<open>timestamp\<close>) is strictly greater than the window duration, the call is allowed with
  \<open>remaining = RATE_LIMIT - 1\<close> and \<open>reset = now + RATE_WINDOW\<close>, and the entry becomes
  \<open>count = 1\<close>, \<open>timestamp = now\<close>, whatever its count was. The rest of the table is
  unchanged.
\<close>

theorem C4_reset_after_window:
  assumes "s ip = Some e" and "now - timestamp e > RATE_WINDOW"
  shows "checkRateLimit now ip s =
           (\<lparr>allowed = True, remaining = RATE_LIMIT - 1, reset = now + RATE_WINDOW\<rparr>,
            s(ip \<mapsto> \<lparr>count = 1, timestamp = now\<rparr>))"
  using assms by (simp add: checkRateLimit_def)

theorem C4_witness:
  "[''a'' \<mapsto> \<lparr>count = 50, timestamp = 0\<rparr>] ''a'' = Some \<lparr>count = 50, timestamp = 0\<rparr> \<and>
   30001 - timestamp \<lparr>count = 50, timestamp = 0\<rparr> > RATE_WINDOW \<and>
   checkRateLimit 30001 ''a'' [''a'' \<mapsto> \<lparr>count = 50, timestamp = 0\<rparr>] =
     (\<lparr>allowed = True, remaining = RATE_LIMIT - 1, reset = 30001 + RATE_WINDOW\<rparr>,
      [''a'' \<mapsto> \<lparr>count = 50, timestamp = 0\<rparr>](''a'' \<mapsto> \<lparr>count = 1, timestamp = 30001\<rparr>))"
  using C4_reset_after_window
    [of "[''a'' \<mapsto> \<lparr>count = 50, timestamp = 0\<rparr>]" "''a''" "\<lparr>count = 50, timestamp = 0\<rparr>" 30001]
  by (simp add: RATE_WINDOW_def)

text \<open>
  At an age of exactly the window duration the entry is not reset: with fifty requests
  counted at time 0, the call at time 30000 is rejected.
\<close>

theorem C4_counterexample:
  "30000 - timestamp \<lparr>count = 50, timestamp = 0\<rparr> \<ge> RATE_WINDOW \<and>
   \<not> allowed (fst (checkRateLimit 30000 ''a'' [''a'' \<mapsto> \<lparr>count = 50, timestamp = 0\<rparr>]))"
  by (simp add: checkRateLimit_def RATE_WINDOW_def RATE_LIMIT_def)

subsection \<open>The reset time\<close>

text \<open>
  C6. After every call of \<open>checkRateLimit\<close> the identity has an entry in the table, the
  window in effect, and the \<open>reset\<close> of the decision is that entry's \<open>timestamp\<close> plus
  the window duration. The entry's \<open>timestamp\<close> is \<open>now\<close> when the entry was created
  or reset by this call, and the stored one otherwise.
\<close>

theorem C6_reset_is_window_end:
  "\<exists>e. snd (checkRateLimit now ip s) ip = Some e \<and>
       reset (fst (checkRateLimit now ip s)) = timestamp e + RATE_WINDOW \<and>
       timestamp e =
         (case s ip of
            None \<Rightarrow> now
          | Some e0 \<Rightarrow> if now - timestamp e0 > RATE_WINDOW then now else timestamp e0)"
  by (simp add: checkRateLimit_def Let_def split: option.splits)

theorem C6_witness:
  "\<exists>e. snd (checkRateLimit 7 ''a'' [''a'' \<mapsto> \<lparr>count = 3, timestamp = 5\<rparr>]) ''a'' = Some e \<and>
       reset (fst (checkRateLimit 7 ''a'' [''a'' \<mapsto> \<lparr>count = 3, timestamp = 5\<rparr>])) =
         timestamp e + RATE_WINDOW \<and>
       timestamp e = 5"
  using C6_reset_is_window_end [of 7 "''a''" "[''a'' \<mapsto> \<lparr>count = 3, timestamp = 5\<rparr>]"]
  by (simp add: RATE_WINDOW_def)

subsection \<open>The sweep is not observable\<close>

lemma swept_view_refl: "swept_view t s s"
  by (simp add: swept_view_def)

lemma swept_view_later:
  assumes "swept_view t s1 s2" and "t \<le> t'"
  shows "swept_view t' s1 s2"
  unfolding swept_view_def
proof
  fix ip
  from assms(1) have "s1 ip = s2 ip \<or>
      (s1 ip = None \<and> (\<exists>e. s2 ip = Some e \<and> t - timestamp e > RATE_WINDOW))"
    by (simp add: swept_view_def)
  with assms(2) show "s1 ip = s2 ip \<or>
      (s1 ip = None \<and> (\<exists>e. s2 ip = Some e \<and> t' - timestamp e > RATE_WINDOW))"
    by fastforce
qed

lemma swept_view_sweep:
  assumes "swept_view t s1 s2"
  shows "swept_view t (sweep t s1) s2"
  unfolding swept_view_def
proof
  fix ip
  from assms have "s1 ip = s2 ip \<or>
      (s1 ip = None \<and> (\<exists>e. s2 ip = Some e \<and> t - timestamp e > RATE_WINDOW))"
    by (simp add: swept_view_def)
  then show "sweep t s1 ip = s2 ip \<or>
      (sweep t s1 ip = None \<and> (\<exists>e. s2 ip = Some e \<and> t - timestamp e > RATE_WINDOW))"
    by (auto simp: sweep_def split: option.splits)
qed

lemma checkRateLimit_other:
  assumes "ip' \<noteq> ip"
  shows "snd (checkRateLimit t ip s) ip' = s ip'"
  using assms by (simp add: checkRateLimit_def Let_def split: option.splits)

lemma checkRateLimit_local:
  assumes "s1 ip = s2 ip"
  shows "fst (checkRateLimit t ip s1) = fst (checkRateLimit t ip s2)"
    and "snd (checkRateLimit t ip s1) ip = snd (checkRateLimit t ip s2) ip"
  using assms by (simp_all add: checkRateLimit_def Let_def split: option.splits)

lemma checkRateLimit_stale_absent:
  assumes "s1 ip = None" and "s2 ip = Some e" and "t - timestamp e > RATE_WINDOW"
  shows "fst (checkRateLimit t ip s1) = fst (checkRateLimit t ip s2)"
    and "snd (checkRateLimit t ip s1) ip = snd (checkRateLimit t ip s2) ip"
  using assms by (simp_all add: checkRateLimit_def)

lemma swept_view_checkRateLimit:
  assumes "swept_view t s1 s2"
  shows "fst (checkRateLimit t ip s1) = fst (checkRateLimit t ip s2)"
    and "swept_view t (snd (checkRateLimit t ip s1)) (snd (checkRateLimit t ip s2))"
proof -
  have at: "s1 i = s2 i \<or>
      (s1 i = None \<and> (\<exists>e. s2 i = Some e \<and> t - timestamp e > RATE_WINDOW))" for i
    using assms by (simp add: swept_view_def)
  have same: "fst (checkRateLimit t ip s1) = fst (checkRateLimit t ip s2) \<and>
      snd (checkRateLimit t ip s1) ip = snd (checkRateLimit t ip s2) ip"
    using at [of ip] checkRateLimit_local [of s1 ip s2 t]
      checkRateLimit_stale_absent [of s1 ip s2 _ t]
    by blast
  then show "fst (checkRateLimit t ip s1) = fst (checkRateLimit t ip s2)" ..
  show "swept_view t (snd (checkRateLimit t ip s1)) (snd (checkRateLimit t ip s2))"
    unfolding swept_view_def
  proof
    fix i
    show "snd (checkRateLimit t ip s1) i = snd (checkRateLimit t ip s2) i \<or>
        (snd (checkRateLimit t ip s1) i = None \<and>
         (\<exists>e. snd (checkRateLimit t ip s2) i = Some e \<and> t - timestamp e > RATE_WINDOW))"
    proof (cases "i = ip")
      case True
      with same show ?thesis by simp
    next
      case False
      with at [of i] show ?thesis by (simp add: checkRateLimit_other)
    qed
  qed
qed

lemma run_swept_view:
  assumes "swept_view t s1 s2" and "sorted (t # map time_of es)"
  shows "fst (run s1 es) = fst (run s2 (filter is_Check es))"
  using assms
proof (induction es arbitrary: t s1 s2)
  case Nil
  then show ?case by simp
next
  case (Cons e es)
  from Cons.prems(2) have le: "t \<le> time_of e" and rest: "sorted (time_of e # map time_of es)"
    by simp_all
  have view: "swept_view (time_of e) s1 s2"
    using Cons.prems(1) le by (rule swept_view_later)
  show ?case
  proof (cases e)
    case (Check u ip)
    with view have v: "swept_view u s1 s2" by simp
    have d: "fst (checkRateLimit u ip s1) = fst (checkRateLimit u ip s2)"
      using v by (rule swept_view_checkRateLimit(1))
    have "swept_view u (snd (checkRateLimit u ip s1)) (snd (checkRateLimit u ip s2))"
      using v by (rule swept_view_checkRateLimit(2))
    then have "fst (run (snd (checkRateLimit u ip s1)) es) =
        fst (run (snd (checkRateLimit u ip s2)) (filter is_Check es))"
      using rest Check by (intro Cons.IH [of u]) simp_all
    with d show ?thesis
      by (simp only: Check filter.simps is_Check.simps if_True fst_run_Check)
  next
    case (Sweep u)
    with view have "swept_view u (sweep u s1) s2"
      by (simp add: swept_view_sweep)
    then have "fst (run (sweep u s1) es) = fst (run s2 (filter is_Check es))"
      using rest Sweep by (intro Cons.IH [of u]) simp_all
    then show ?thesis by (simp add: Sweep)
  qed
qed

text \<open>
  C10. Take any run of calls of \<open>checkRateLimit\<close> and firings of the sweep whose clock
  readings do not decrease along the run, from any table. Every call returns the same
  decision as in the run without the sweeps: the limiter with the sweep cannot be told
  from the limiter without it.
\<close>

theorem C10_sweep_not_observable:
  assumes "sorted (map time_of es)"
  shows "fst (run s es) = fst (run s (filter is_Check es))"
proof (cases es)
  case Nil
  then show ?thesis by simp
next
  case (Cons e es')
  with assms have "sorted (time_of e # map time_of es)" by simp
  with swept_view_refl show ?thesis by (rule run_swept_view)
qed

theorem C10_witness:
  "sorted (map time_of
     [Check 0 ''a'', Check 10 ''b'', Sweep 15000, Sweep 30001, Check 30002 ''a'', Check 30011 ''b'']) \<and>
   fst (run Map.empty
     [Check 0 ''a'', Check 10 ''b'', Sweep 15000, Sweep 30001, Check 30002 ''a'', Check 30011 ''b''])
   = fst (run Map.empty
     (filter is_Check
       [Check 0 ''a'', Check 10 ''b'', Sweep 15000, Sweep 30001, Check 30002 ''a'', Check 30011 ''b'']))"
  using C10_sweep_not_observable
    [of "[Check 0 ''a'', Check 10 ''b'', Sweep 15000, Sweep 30001, Check 30002 ''a'', Check 30011 ''b'']"
        Map.empty]
  by simp

section \<open>Properties of the chain lookups\<close>

text \<open>
  C7. For every chain id of the EVM set \<open>{1, 10, 56, 137, 8453, 42161, 43114}\<close> and of
  the non-EVM set \<open>{7565164}\<close>, \<open>getReferralKey\<close> and \<open>getAffiliateFeeRecipient\<close> both
  return a non-empty string. For every other integer both fail with the error for an
  unsupported chain, which names that id.
\<close>

theorem C7_chain_lookups:
  "(c \<in> {1, 10, 56, 137, 8453, 42161, 43114} \<union> {7565164} \<longrightarrow>
      (\<exists>k a. getReferralKey c = Inr k \<and> k \<noteq> [] \<and>
             getAffiliateFeeRecipient c = Inr a \<and> a \<noteq> [])) \<and>
   (c \<notin> {1, 10, 56, 137, 8453, 42161, 43114} \<union> {7565164} \<longrightarrow>
      getReferralKey c = Inl (UnsupportedChain c) \<and>
      getAffiliateFeeRecipient c = Inl (UnsupportedChain c))"
  by (simp add: getReferralKey_def getAffiliateFeeRecipient_def
      SUPPORTED_CHAINS_EVM_def SUPPORTED_CHAINS_SOLANA_def
      JUPITER_REFERRAL_PUBKEY_def DEBRIDGE_REFERRAL_CODE_def
      SOLANA_PUBLIC_KEY_def EVM_RECIPIENT_def)

theorem C7_witness:
  "(\<exists>k a. getReferralKey 8453 = Inr k \<and> k \<noteq> [] \<and>
          getAffiliateFeeRecipient 8453 = Inr a \<and> a \<noteq> []) \<and>
   (\<exists>k a. getReferralKey 7565164 = Inr k \<and> k \<noteq> [] \<and>
          getAffiliateFeeRecipient 7565164 = Inr a \<and> a \<noteq> []) \<and>
   getReferralKey 2 = Inl (UnsupportedChain 2) \<and>
   getAffiliateFeeRecipient 2 = Inl (UnsupportedChain 2)"
  using C7_chain_lookups [of 8453] C7_chain_lookups [of 7565164] C7_chain_lookups [of 2]
  by simp

section \<open>Properties of headers and responses\<close>

lemma lower_rate_limit_names:
  "lower ''X-RateLimit-Limit'' = ''x-ratelimit-limit''"
  "lower ''X-RateLimit-Remaining'' = ''x-ratelimit-remaining''"
  "lower ''X-RateLimit-Reset'' = ''x-ratelimit-reset''"
  by (simp_all add: lower_def lower_char_def char_of_def bit_0)

lemma lower_other_names:
  "lower ''Content-Type'' = ''content-type''"
  "lower ''content-type'' = ''content-type''"
  "lower ''Cache-Control'' = ''cache-control''"
  "lower ''Retry-After'' = ''retry-after''"
  "lower ''Content-Encoding'' = ''content-encoding''"
  "lower ''Content-Length'' = ''content-length''"
  "lower ''X-Content-Type-Options'' = ''x-content-type-options''"
  "lower ''Access-Control-Allow-Origin'' = ''access-control-allow-origin''"
  "lower ''Access-Control-Allow-Methods'' = ''access-control-allow-methods''"
  "lower ''Access-Control-Allow-Headers'' = ''access-control-allow-headers''"
  by (simp_all add: lower_def lower_char_def char_of_def bit_0)

lemma map_of_filter_other:
  assumes "k' \<noteq> k"
  shows "map_of (filter (\<lambda>p. fst p \<noteq> k) hs) k' = map_of hs k'"
  using assms by (induction hs) auto

lemma map_of_headers_put:
  "map_of (headers_put k v hs) k' = (if k' = k then Some v else map_of hs k')"
  by (induction hs) (auto simp: map_of_filter_other)

lemma headers_get_set:
  "headers_get (headers_set name v hs) name' =
     (if lower name' = lower name then Some v else headers_get hs name')"
  by (simp add: headers_get_def headers_set_def map_of_headers_put)

lemma headers_get_addRateLimitHeaders:
  "headers_get (addRateLimitHeaders hs info) name =
     (if lower name = ''x-ratelimit-reset'' then Some (toString (ceil_div_1000 (reset info)))
      else if lower name = ''x-ratelimit-remaining'' then Some (toString (remaining info))
      else if lower name = ''x-ratelimit-limit'' then Some (toString RATE_LIMIT)
      else headers_get hs name)"
  by (simp add: addRateLimitHeaders_def headers_get_set lower_rate_limit_names)

lemma headers_get_new_Response_text:
  "headers_get (headers (new_Response_text b st hs)) name =
     (case headers_get hs name of
        Some v \<Rightarrow> Some v
      | None \<Rightarrow> if lower name = ''content-type'' then Some ''text/plain;charset=UTF-8''
                else None)"
  by (auto simp: new_Response_text_def headers_get_def map_add_def split: option.splits)

lemma carries_addRateLimitHeaders:
  "carries_rate_limit_headers (new_Response_text b st (addRateLimitHeaders hs info)) info"
  by (simp add: carries_rate_limit_headers_def headers_get_new_Response_text
      headers_get_addRateLimitHeaders lower_rate_limit_names)

section \<open>Properties of the request handler\<close>

lemma toString_0: "toString 0 = ''0''"
  by (simp add: toString_def digits.simps)

lemma handler_try_rejected:
  assumes "\<not> allowed (fst (checkRateLimit (date_now env) (clientIP req) s))"
  shows "fst (handler_try gz cfg env req s) =
           new_Response_text ''Rate limit exceeded'' 429
             (addRateLimitHeaders
                (new_Headers
                   [(''Content-Type'', ''text/plain''),
                    (''Retry-After'',
                     toString (ceil_div_1000
                       (reset (fst (checkRateLimit (date_now env) (clientIP req) s)) -
                        date_now_retry env)))])
                (fst (checkRateLimit (date_now env) (clientIP req) s)))"
  using assms by (simp add: handler_try_def case_prod_beta)

lemma handler_try_full:
  assumes "s (clientIP req) = Some e" and "date_now env - timestamp e \<le> RATE_WINDOW"
    and "count e \<ge> RATE_LIMIT"
  shows "status (fst (handler_try gz cfg env req s)) = 429"
    and "headers_get (headers (fst (handler_try gz cfg env req s))) ''X-RateLimit-Remaining'' =
           Some ''0''"
    and "snd (handler_try gz cfg env req s) = s"
proof -
  have full: "checkRateLimit (date_now env) (clientIP req) s =
      (\<lparr>allowed = False, remaining = 0, reset = timestamp e + RATE_WINDOW\<rparr>, s)"
    using assms by (rule checkRateLimit_full)
  then have rejected: "\<not> allowed (fst (checkRateLimit (date_now env) (clientIP req) s))"
    by simp
  show "status (fst (handler_try gz cfg env req s)) = 429"
    by (simp only: handler_try_rejected [OF rejected]) (simp add: new_Response_text_def)
  show "headers_get (headers (fst (handler_try gz cfg env req s))) ''X-RateLimit-Remaining'' =
      Some ''0''"
    by (simp only: handler_try_rejected [OF rejected])
      (simp add: headers_get_new_Response_text headers_get_addRateLimitHeaders
        lower_rate_limit_names full toString_0)
  show "snd (handler_try gz cfg env req s) = s"
    by (simp add: snd_handler_try full)
qed

lemma handler_throws:
  "handler gz cfg env req s = Inl (TypeError ''Deno.readDir(...).next is not a function'')"
  by (simp add: handler_def Deno_readDir_next_def)

text \<open>
  C2, at the router. Whatever the requests of a sequence are, whatever the table is, the
  handler throws the \<open>TypeError\<close> of line 284 on each of them: no request gets a
  response, so none gets status 429, and the table is never touched. The limiter on its
  own does reject a full entry (\<open>checkRateLimit_full\<close>), and the \<open>try\<close> block would
  answer it with 429 and \<open>X-RateLimit-Remaining: 0\<close> (\<open>handler_try_full\<close>); the
  handler does not get there.
\<close>

theorem C2_handler_throws_on_every_request:
  "fst (serve gzip config s ers) =
     map (\<lambda>er. Inl (TypeError ''Deno.readDir(...).next is not a function'')) ers \<and>
   snd (serve gzip config s ers) = s"
  by (induction ers) (simp_all add: handler_throws case_prod_beta)

lemma status_new_Response_text: "status (new_Response_text b st hs) = st"
  by (simp add: new_Response_text_def)

lemma body_new_Response_text: "body (new_Response_text b st hs) = b"
  by (simp add: new_Response_text_def)

lemma headers_get_Nil: "headers_get [] name = None"
  by (simp add: headers_get_def)

lemma lacks_server_error: "lacks_rate_limit_headers server_error"
  by (simp add: lacks_rate_limit_headers_def server_error_def headers_get_new_Response_text
      headers_get_Nil lower_rate_limit_names)

lemma compressResponse_Inr:
  assumes "compressResponse gz r = Inr r'"
  shows "status r' = status r"
    and "body r' = gz (utf8_encode (utf8_decode (body r)))"
    and "headers r' =
           headers_set ''Content-Length'' (toString (int (length (body r'))))
             (headers_set ''Content-Encoding'' ''gzip'' (headers r))"
    and "\<not> null_body_status (status r)"
  using assms
  by (auto simp: compressResponse_def new_Response_bytes_def Let_def split: if_splits)

lemma compressResponse_200:
  assumes "status r = 200"
  shows "\<exists>r'. compressResponse gz r = Inr r'"
  using assms
  by (simp add: compressResponse_def new_Response_bytes_def Let_def null_body_status_def)

lemma carries_compressResponse:
  assumes "compressResponse gz r = Inr r'" and "carries_rate_limit_headers r info"
  shows "carries_rate_limit_headers r' info"
  using assms(2)
  by (simp add: carries_rate_limit_headers_def compressResponse_Inr(3) [OF assms(1)]
      headers_get_set lower_rate_limit_names lower_other_names)

lemma carries_headers_update:
  "carries_rate_limit_headers (r\<lparr>headers := addRateLimitHeaders hs info\<rparr>) info"
  by (simp add: carries_rate_limit_headers_def headers_get_addRateLimitHeaders
      lower_rate_limit_names)

text \<open>
  What the \<open>try\<close> block answers: a 500 without the rate-limit headers, the bare 404 of
  the static asset route, or a response that carries the three headers of the decision.
\<close>

lemma handler_try_routes:
  fixes gz cfg env req s
  defines "info \<equiv> fst (checkRateLimit (date_now env) (clientIP req) s)"
    and "resp \<equiv> fst (handler_try gz cfg env req s)"
  shows "(status resp = 500 \<and> lacks_rate_limit_headers resp) \<or>
         (asset_not_found env req \<and> resp = new_Response_text ''Not Found'' 404 []) \<or>
         (status resp \<noteq> 500 \<and> carries_rate_limit_headers resp info)"
proof (cases "allowed info")
  case False
  then have "resp = new_Response_text ''Rate limit exceeded'' 429
      (addRateLimitHeaders
         (new_Headers
            [(''Content-Type'', ''text/plain''),
             (''Retry-After'', toString (ceil_div_1000 (reset info - date_now_retry env)))])
         info)"
    unfolding info_def resp_def by (rule handler_try_rejected)
  then show ?thesis
    by (simp add: status_new_Response_text carries_addRateLimitHeaders)
next
  case True
  note admitted = True
  show ?thesis
  proof (cases "pathname req = ''/widget-config''")
    case True
    let ?r = "new_Response_text (JSON_stringify cfg) 200
        (addRateLimitHeaders
           (new_Headers
              [(''Content-Type'', ''application/json''),
               (''Cache-Control'', ''public, max-age='' @ toString DYNAMIC_CACHE_MAX_AGE),
               (''X-Content-Type-Options'', ''nosniff''),
               (''Access-Control-Allow-Origin'', ''*''),
               (''Access-Control-Allow-Methods'', ''GET, OPTIONS''),
               (''Access-Control-Allow-Headers'', ''Content-Type'')])
           info)"
    have r: "status ?r = 200" "carries_rate_limit_headers ?r info"
      by (simp_all add: status_new_Response_text carries_addRateLimitHeaders)
    show ?thesis
    proof (cases "acceptsGzip req")
      case False
      with admitted True have "resp = ?r"
        by (simp add: resp_def info_def handler_try_def case_prod_beta)
      with r show ?thesis by simp
    next
      case True
      obtain r' where r': "compressResponse gz ?r = Inr r'"
        using compressResponse_200 [OF r(1)] by blast
      with admitted True \<open>pathname req = ''/widget-config''\<close> have "resp = r'"
        by (simp add: resp_def info_def handler_try_def case_prod_beta)
      with r compressResponse_Inr(1) [OF r'] carries_compressResponse [OF r' r(2)]
      show ?thesis by simp
    qed
  next
    case False
    note not_config = False
    show ?thesis
    proof (cases "pathname req = ''/'' \<or> pathname req = ''/index.html''")
      case True
      show ?thesis
      proof (cases "index_html env")
        case None
        with admitted not_config True have "resp = server_error"
          by (auto simp: resp_def info_def handler_try_def case_prod_beta)
        then show ?thesis
          by (simp add: lacks_server_error) (simp add: server_error_def status_new_Response_text)
      next
        case (Some indexHtml)
        with admitted not_config True have "resp = new_Response_text indexHtml 200
            (addRateLimitHeaders
               (new_Headers
                  [(''content-type'', ''text/html; charset=utf-8''),
                   (''Cache-Control'', ''public, max-age='' @ toString DYNAMIC_CACHE_MAX_AGE)])
               info)"
          by (auto simp: resp_def info_def handler_try_def case_prod_beta)
        then show ?thesis
          by (simp add: status_new_Response_text carries_addRateLimitHeaders)
      qed
    next
      case False
      note not_index = False
      show ?thesis
      proof (cases "startsWith (pathname req) ''/assets/'' \<or> matches_static_extension (pathname req)")
        case False
        with admitted not_config not_index have "resp = new_Response_text ''Not Found'' 404
            (addRateLimitHeaders
               (new_Headers [(''Content-Type'', ''text/plain''), (''Cache-Control'', ''no-store'')])
               info)"
          by (simp add: resp_def info_def handler_try_def case_prod_beta)
        then show ?thesis
          by (simp add: status_new_Response_text carries_addRateLimitHeaders)
      next
        case True
        note asset = True
        show ?thesis
        proof (cases "serve_dir env")
          case None
          with admitted not_config not_index asset have "resp = server_error"
            by (simp add: resp_def info_def handler_try_def case_prod_beta)
          then show ?thesis
            by (simp add: lacks_server_error) (simp add: server_error_def status_new_Response_text)
        next
          case (Some response)
          show ?thesis
          proof (cases "ok response")
            case False
            with admitted not_config not_index asset Some
            have "resp = new_Response_text ''Not Found'' 404 []"
              by (simp add: resp_def info_def handler_try_def case_prod_beta)
            moreover have "asset_not_found env req"
              using not_config not_index asset Some False by (simp add: asset_not_found_def)
            ultimately show ?thesis by simp
          next
            case True
            let ?r = "response\<lparr>headers :=
                addRateLimitHeaders
                  (headers_set ''Cache-Control''
                     (if startsWith (pathname req) ''/assets/''
                      then ''public, max-age='' @ toString STATIC_CACHE_MAX_AGE
                      else ''public, max-age='' @ toString DYNAMIC_CACHE_MAX_AGE)
                     (headers response))
                  info\<rparr>"
            have r: "status ?r \<noteq> 500" "carries_rate_limit_headers ?r info"
              using True by (simp_all add: ok_def carries_headers_update)
            show ?thesis
            proof (cases "acceptsGzip req")
              case False
              with admitted not_config not_index asset Some True have "resp = ?r"
                by (simp add: resp_def info_def handler_try_def case_prod_beta Let_def)
              with r show ?thesis by simp
            next
              case True
              show ?thesis
              proof (cases "compressResponse gz ?r")
                case (Inl error)
                with admitted not_config not_index asset Some \<open>ok response\<close> True
                have "resp = server_error"
                  by (simp add: resp_def info_def handler_try_def case_prod_beta Let_def)
                then show ?thesis
                  by (simp add: lacks_server_error)
                    (simp add: server_error_def status_new_Response_text)
              next
                case (Inr compressed)
                with admitted not_config not_index asset Some \<open>ok response\<close> True
                have "resp = compressed"
                  by (simp add: resp_def info_def handler_try_def case_prod_beta Let_def)
                with r compressResponse_Inr(1) [OF Inr] carries_compressResponse [OF Inr r(2)]
                show ?thesis by simp
              qed
            qed
          qed
        qed
      qed
    qed
  qed
qed

text \<open>
  C5, at a request of the last route. For \<open>GET /unknown/path\<close> the \<open>try\<close> block would
  answer 404 with the three rate-limit headers of the decision, the reset in epoch
  seconds. The handler throws at line 284 before it and returns no response at all.
\<close>

theorem C5_no_response_to_carry_headers:
  "handler gzip config
     \<lparr>date_now = 1700000000123, date_now_retry = 1700000000124, index_html = None,
       serve_dir = None\<rparr>
     \<lparr>pathname = ''/unknown/path'', x_forwarded_for = None, x_real_ip = None,
       accept_encoding = None\<rparr>
     Map.empty = Inl (TypeError ''Deno.readDir(...).next is not a function'') \<and>
   status (fst (handler_try gzip config
     \<lparr>date_now = 1700000000123, date_now_retry = 1700000000124, index_html = None,
       serve_dir = None\<rparr>
     \<lparr>pathname = ''/unknown/path'', x_forwarded_for = None, x_real_ip = None,
       accept_encoding = None\<rparr>
     Map.empty)) = 404 \<and>
   carries_rate_limit_headers (fst (handler_try gzip config
     \<lparr>date_now = 1700000000123, date_now_retry = 1700000000124, index_html = None,
       serve_dir = None\<rparr>
     \<lparr>pathname = ''/unknown/path'', x_forwarded_for = None, x_real_ip = None,
       accept_encoding = None\<rparr>
     Map.empty))
     \<lparr>allowed = True, remaining = 49, reset = 1700000030123\<rparr>"
  by (simp add: handler_throws handler_try_def checkRateLimit_def clientIP_def
      status_new_Response_text carries_addRateLimitHeaders
      startsWith_def matches_static_extension_def suffix_Cons RATE_LIMIT_def RATE_WINDOW_def)

section \<open>Properties of the compression\<close>

lemma utf8_decode_png_signature:
  "utf8_decode [CHR 0x89, CHR ''P'', CHR ''N'', CHR ''G'', CHR 0x0D, CHR 0x0A, CHR 0x1A, CHR 0x0A] =
     [0xFFFD, 0x50, 0x4E, 0x47, 0x0D, 0x0A, 0x1A, 0x0A]"
  by (simp add: utf8_decode_def utf8_decoder.simps)

lemma utf8_encode_replaced_signature:
  "utf8_encode [0xFFFD, 0x50, 0x4E, 0x47, 0x0D, 0x0A, 0x1A, 0x0A] =
     [CHR 0xEF, CHR 0xBF, CHR 0xBD, CHR ''P'', CHR ''N'', CHR ''G'',
      CHR 0x0D, CHR 0x0A, CHR 0x1A, CHR 0x0A]"
  by (simp add: utf8_encode_def utf8_encode_char_def char_of_def bit_0)

text \<open>
  C8, at an input where the code departs from it. A PNG file starts with the byte
  \<open>0x89\<close>, which is not UTF-8. On a response with status 200 and such a body,
  \<open>compressResponse\<close> returns the compression of other bytes: \<open>0x89\<close> has become the
  three bytes of U+FFFD. This holds for every \<open>gzip\<close> function, so no decompression
  gives the original body back. The status is kept, \<open>Content-Encoding\<close> is set and
  \<open>Content-Length\<close> is the length of the compressed bytes.
\<close>

theorem C8_binary_body_not_preserved:
  "compressResponse gzip
     \<lparr>status = 200, headers = [(''content-type'', ''image/png'')],
       body = [CHR 0x89, CHR ''P'', CHR ''N'', CHR ''G'', CHR 0x0D, CHR 0x0A, CHR 0x1A, CHR 0x0A]\<rparr> =
   Inr \<lparr>status = 200,
         headers =
           [(''content-type'', ''image/png''), (''content-encoding'', ''gzip''),
            (''content-length'',
             toString (int (length (gzip
               [CHR 0xEF, CHR 0xBF, CHR 0xBD, CHR ''P'', CHR ''N'', CHR ''G'',
                CHR 0x0D, CHR 0x0A, CHR 0x1A, CHR 0x0A]))))],
         body = gzip [CHR 0xEF, CHR 0xBF, CHR 0xBD, CHR ''P'', CHR ''N'', CHR ''G'',
                      CHR 0x0D, CHR 0x0A, CHR 0x1A, CHR 0x0A]\<rparr> \<and>
   [CHR 0xEF, CHR 0xBF, CHR 0xBD, CHR ''P'', CHR ''N'', CHR ''G'', CHR 0x0D, CHR 0x0A, CHR 0x1A, CHR 0x0A]
     \<noteq> [CHR 0x89, CHR ''P'', CHR ''N'', CHR ''G'', CHR 0x0D, CHR 0x0A, CHR 0x1A, CHR 0x0A]"
  by (simp add: compressResponse_def new_Response_bytes_def null_body_status_def Let_def
      headers_set_def lower_other_names
      utf8_decode_png_signature utf8_encode_replaced_signature)

section \<open>Properties of the widget configuration\<close>

lemma WIDGET_CONFIG_built: "\<exists>config. WIDGET_CONFIG = Inr config"
  by (simp add: WIDGET_CONFIG_def getReferralKey_def getAffiliateFeeRecipient_def
      SUPPORTED_CHAINS_EVM_def SUPPORTED_CHAINS_SOLANA_def)

lemma handler_try_widget_config:
  assumes "pathname req = ''/widget-config''"
    and "allowed (fst (checkRateLimit (date_now env) (clientIP req) s))"
  shows "status (fst (handler_try gz cfg env req s)) = 200"
    and "body (fst (handler_try gz cfg env req s)) =
           (if acceptsGzip req then gz (utf8_encode (utf8_decode (JSON_stringify cfg)))
            else JSON_stringify cfg)"
proof -
  define r where "r = new_Response_text (JSON_stringify cfg) 200
      (addRateLimitHeaders
         (new_Headers
            [(''Content-Type'', ''application/json''),
             (''Cache-Control'', ''public, max-age='' @ toString DYNAMIC_CACHE_MAX_AGE),
             (''X-Content-Type-Options'', ''nosniff''),
             (''Access-Control-Allow-Origin'', ''*''),
             (''Access-Control-Allow-Methods'', ''GET, OPTIONS''),
             (''Access-Control-Allow-Headers'', ''Content-Type'')])
         (fst (checkRateLimit (date_now env) (clientIP req) s)))"
  have st: "status r = 200" and bd: "body r = JSON_stringify cfg"
    by (simp_all add: r_def status_new_Response_text body_new_Response_text)
  have resp: "fst (handler_try gz cfg env req s) =
      (if acceptsGzip req then
         (case compressResponse gz r of Inl e \<Rightarrow> internal_server_error | Inr c \<Rightarrow> c)
       else r)"
    using assms unfolding r_def by (simp add: handler_try_def case_prod_beta split: sum.splits)
  obtain r' where r': "compressResponse gz r = Inr r'"
    using compressResponse_200 [OF st] by blast
  show "status (fst (handler_try gz cfg env req s)) = 200"
    using compressResponse_Inr(1) [OF r'] by (simp add: resp r' st)
  show "body (fst (handler_try gz cfg env req s)) =
      (if acceptsGzip req then gz (utf8_encode (utf8_decode (JSON_stringify cfg)))
       else JSON_stringify cfg)"
    using compressResponse_Inr(2) [OF r'] by (simp add: resp r' bd)
qed

lemma stringify_supported_chains:
  \<open>JSON_stringify (JObject [(''inputChains'', inputChains), (''outputChains'', outputChains)]) =
     ''{"inputChains":{"1":["","0xdac17f958d2ee523a2206206994597c13d831ec7","0xa0b86991c6218b36c1d19d4a2e9eb0ce3606eb48","0x6b175474e89094c44da98b954eedeac495271d0f","0xc02aaa39b223fe8d0a0e5c4f27ead9083c756cc2"],"10":["","0x4200000000000000000000000000000000000042","0x94b008aa00579c1307b0ef2c499ad98a8ce58e58","0x0b2c639c533813f4aa9d7837caf62653d097ff85","0xda10009cbd5d07dd0cecc66161fc93d7c9000da1","0x4200000000000000000000000000000000000006"],"56":["","0x55d398326f99059ff775485246999027b3197955","0x8ac76a51cc950d9822d68b83fe1ad97b32cd580d","0x1af3f329e8be154074d8769d1ffa4ee058b1dbc3","0xbb4cdb9cbd36b01bd1cbaebf2de08d9173bc095c"],"137":["","0xc2132d05d31c914a87c6611c10748aeb04b58e8f","0x3c499c542cef5e3811e1192ce70d8cc03d5c3359","0x8f3cf7ad23cd3cadbd9735aff958023239c6a063","0x7ceb23fd6bc0add59e62ac25578270cff1b9f619"],"8453":["","0xfde4c96c8593536e31f229ea8f37b2ada2699bb2","0x833589fcd6edb6e08f4c7c32d4f71b54bda02913","0x50c5725949a6f0c72e6c4a641f24049a917db0cb","0x4200000000000000000000000000000000000006","0x506beb7965fc7053059006c7ab4c62c02c2d989f"],"42161":["","0x912ce59144191c1204e64559fe8253a0e49e6548","0xfd086bc7cd5c481dcc9c85ebe478a1c0b69fcbb9","0xaf88d065e77c8cc2239327c5edb3a432268e5831","0xda10009cbd5d07dd0cecc66161fc93d7c9000da1"],"43114":["","0x9702230a8ea53601f5cd2dc00fdbc13d4df4a8c7","0xb97ef9ef8734c71904d8002f8b6bc66dd9c48a6e","0xd586e7f844cea2f87f50152665bcbc2c279d8d70","0xb31f66aa3c1e785363f0875a1b74e27b85fd66c7"],"7565164":["","So11111111111111111111111111111111111111112","HAqD46mR4LgY3aJiMZSabfefZoysG3Uuj6wn2ZKYE14v","Es9vMFrzaCERmJfrF4H2FYD4KCoNkY11McCe8BenwNYB","EPjFWdd5AufqSSqeM2qN1xzybapC8G4wEGGkZwyTDt1v"]},"outputChains":{"1":["","0xdac17f958d2ee523a2206206994597c13d831ec7","0xa0b86991c6218b36c1d19d4a2e9eb0ce3606eb48","0x6b175474e89094c44da98b954eedeac495271d0f","0xc02aaa39b223fe8d0a0e5c4f27ead9083c756cc2"],"10":["","0x4200000000000000000000000000000000000042","0x94b008aa00579c1307b0ef2c499ad98a8ce58e58","0x0b2c639c533813f4aa9d7837caf62653d097ff85","0xda10009cbd5d07dd0cecc66161fc93d7c9000da1","0x4200000000000000000000000000000000000006"],"56":["","0x55d398326f99059ff775485246999027b3197955","0x8ac76a51cc950d9822d68b83fe1ad97b32cd580d","0x1af3f329e8be154074d8769d1ffa4ee058b1dbc3","0xbb4cdb9cbd36b01bd1cbaebf2de08d9173bc095c"],"137":["","0xc2132d05d31c914a87c6611c10748aeb04b58e8f","0x3c499c542cef5e3811e1192ce70d8cc03d5c3359","0x8f3cf7ad23cd3cadbd9735aff958023239c6a063","0x7ceb23fd6bc0add59e62ac25578270cff1b9f619"],"8453":["","0xfde4c96c8593536e31f229ea8f37b2ada2699bb2","0x833589fcd6edb6e08f4c7c32d4f71b54bda02913","0x50c5725949a6f0c72e6c4a641f24049a917db0cb","0x4200000000000000000000000000000000000006","0x506beb7965fc7053059006c7ab4c62c02c2d989f"],"42161":["","0x912ce59144191c1204e64559fe8253a0e49e6548","0xfd086bc7cd5c481dcc9c85ebe478a1c0b69fcbb9","0xaf88d065e77c8cc2239327c5edb3a432268e5831","0xda10009cbd5d07dd0cecc66161fc93d7c9000da1"],"43114":["","0x9702230a8ea53601f5cd2dc00fdbc13d4df4a8c7","0xb97ef9ef8734c71904d8002f8b6bc66dd9c48a6e","0xd586e7f844cea2f87f50152665bcbc2c279d8d70","0xb31f66aa3c1e785363f0875a1b74e27b85fd66c7"],"7565164":["","So11111111111111111111111111111111111111112","HAqD46mR4LgY3aJiMZSabfefZoysG3Uuj6wn2ZKYE14v","Es9vMFrzaCERmJfrF4H2FYD4KCoNkY11McCe8BenwNYB","EPjFWdd5AufqSSqeM2qN1xzybapC8G4wEGGkZwyTDt1v"]}}''\<close>
  by (simp add: inputChains_def outputChains_def quote_def quote_char_def)

text \<open>
  C9. The module builds \<open>WIDGET_CONFIG\<close> for input chain 1 without an error, and
  \<open>JSON.stringify(WIDGET_CONFIG)\<close> is one fixed sequence of bytes, written out below: the
  members of the literal in their order, with \<open>r\<close> the EVM referral code and
  \<open>affiliateFeeRecipient\<close> the EVM recipient, and last \<open>supportedChains\<close>, the JSON
  text of the token tables as a JSON string (each of its double quotes preceded by a
  backslash). No clock reading, table or request is an argument of the serialization, so
  any two serializations give these same bytes.
\<close>

theorem C9_widget_config_serialization:
  \<open>\<exists>config. WIDGET_CONFIG = Inr config \<and>
     JSON_stringify config =
       ''{"v":"1","element":"debridgeWidget","title":"J1T.FYI Bridge Gate","description":"Just One Token, Just One Gate","width":"600","height":"800","inputChain":1,"outputChain":7565164,"inputCurrency":"","outputCurrency":"HAqD46mR4LgY3aJiMZSabfefZoysG3Uuj6wn2ZKYE14v","address":"","showSwapTransfer":true,"amount":"","outputAmount":"","isAmountFromNotModifiable":false,"isAmountToNotModifiable":false,"lang":"en","mode":"deswap","isEnableCalldata":false,"styles":"eyJhcHBCYWNrZ3JvdW5kIjoiIzQ3NDY0NiIsIm1vZGFsQmciOiIjMDAwMDAwIiwiY2hhcnRCZyI6IiMwMDAwMDAiLCJib3JkZXJDb2xvciI6IiMwMDAwMDAiLCJ0b29sdGlwQmciOiIjMDAwMDAwIiwiZm9ybUNvbnRyb2xCZyI6IiMwMjAyMDIiLCJjb250cm9sQm9yZGVyIjoiIzc0NzQ3NCIsInByaW1hcnkiOiIjMDAwMDAwIiwic2Vjb25kYXJ5IjoiIzQ3NDY0NiIsInN1Y2Nlc3MiOiIjMDA2NDA3IiwiZXJyb3IiOiIjY2QwMTAxIiwid2FybmluZyI6IiNlNGU3MDMiLCJmb250Q29sb3IiOiIjRkZGRkZGIiwiZm9udEZhbWlseSI6IkF1ZGlvd2lkZSIsInByaW1hcnlCdG5CZyI6IiM4MzAyMDIiLCJwcmltYXJ5QnRuQmdIb3ZlciI6IiMwYTBhMGEiLCJwcmltYXJ5QnRuVGV4dCI6IiNkNGQ0ZDQiLCJzZWNvbmRhcnlCdG5CZyI6IiM0NzQ2NDYiLCJzZWNvbmRhcnlCdG5CZ0hvdmVyIjoiI2NkNjgwMSIsInNlY29uZGFyeUJ0blRleHQiOiIjZDRkNGQ0Iiwic2Vjb25kYXJ5QnRuT3V0bGluZSI6IiMwYTBhMGEiLCJidG5Gb250V2VpZ2h0Ijo5MDAsImNoYWluQnRuQmciOiIjMDAwMDAwIiwiY2hhaW5CdG5CZ0FjdGl2ZSI6IiMwYzBiMGIiLCJjaGFpbkJ0blBhZGRpbmciOiIyMCJ9","modalBg":"#000000","chartBg":"#000000","borderColor":"#000000","tooltipBg":"#000000","formControlBg":"#020202","controlBorder":"#747474","primary":"#000000","secondary":"#474646","success":"#006407","error":"#cd0101","warning":"#e4e703","fontColor":"#8f8f8f","fontFamily":"Audiowide","theme":"dark","isHideLogo":false,"logo":"","r":"31021","affiliateFeeRecipient":"0xe83A14f6eae56B0b30465B48a2DE75B2DF895223","affiliateFeePercent":"1","jupiterRefLink":"https://jup.ag/?referrer=FP5JGryFjTNdYustodtw9zLV31fdds5vvieW7TYzP8VJ&feeBps=100","jupiterRefPubkey":"FP5JGryFjTNdYustodtw9zLV31fdds5vvieW7TYzP8VJ","supportedChains":'' @
       [CHR 0x22] @
       concat (map (\<lambda>c. if c = CHR 0x22 then [CHR 0x5C, CHR 0x22] else [c])
         ''{"inputChains":{"1":["","0xdac17f958d2ee523a2206206994597c13d831ec7","0xa0b86991c6218b36c1d19d4a2e9eb0ce3606eb48","0x6b175474e89094c44da98b954eedeac495271d0f","0xc02aaa39b223fe8d0a0e5c4f27ead9083c756cc2"],"10":["","0x4200000000000000000000000000000000000042","0x94b008aa00579c1307b0ef2c499ad98a8ce58e58","0x0b2c639c533813f4aa9d7837caf62653d097ff85","0xda10009cbd5d07dd0cecc66161fc93d7c9000da1","0x4200000000000000000000000000000000000006"],"56":["","0x55d398326f99059ff775485246999027b3197955","0x8ac76a51cc950d9822d68b83fe1ad97b32cd580d","0x1af3f329e8be154074d8769d1ffa4ee058b1dbc3","0xbb4cdb9cbd36b01bd1cbaebf2de08d9173bc095c"],"137":["","0xc2132d05d31c914a87c6611c10748aeb04b58e8f","0x3c499c542cef5e3811e1192ce70d8cc03d5c3359","0x8f3cf7ad23cd3cadbd9735aff958023239c6a063","0x7ceb23fd6bc0add59e62ac25578270cff1b9f619"],"8453":["","0xfde4c96c8593536e31f229ea8f37b2ada2699bb2","0x833589fcd6edb6e08f4c7c32d4f71b54bda02913","0x50c5725949a6f0c72e6c4a641f24049a917db0cb","0x4200000000000000000000000000000000000006","0x506beb7965fc7053059006c7ab4c62c02c2d989f"],"42161":["","0x912ce59144191c1204e64559fe8253a0e49e6548","0xfd086bc7cd5c481dcc9c85ebe478a1c0b69fcbb9","0xaf88d065e77c8cc2239327c5edb3a432268e5831","0xda10009cbd5d07dd0cecc66161fc93d7c9000da1"],"43114":["","0x9702230a8ea53601f5cd2dc00fdbc13d4df4a8c7","0xb97ef9ef8734c71904d8002f8b6bc66dd9c48a6e","0xd586e7f844cea2f87f50152665bcbc2c279d8d70","0xb31f66aa3c1e785363f0875a1b74e27b85fd66c7"],"7565164":["","So11111111111111111111111111111111111111112","HAqD46mR4LgY3aJiMZSabfefZoysG3Uuj6wn2ZKYE14v","Es9vMFrzaCERmJfrF4H2FYD4KCoNkY11McCe8BenwNYB","EPjFWdd5AufqSSqeM2qN1xzybapC8G4wEGGkZwyTDt1v"]},"outputChains":{"1":["","0xdac17f958d2ee523a2206206994597c13d831ec7","0xa0b86991c6218b36c1d19d4a2e9eb0ce3606eb48","0x6b175474e89094c44da98b954eedeac495271d0f","0xc02aaa39b223fe8d0a0e5c4f27ead9083c756cc2"],"10":["","0x4200000000000000000000000000000000000042","0x94b008aa00579c1307b0ef2c499ad98a8ce58e58","0x0b2c639c533813f4aa9d7837caf62653d097ff85","0xda10009cbd5d07dd0cecc66161fc93d7c9000da1","0x4200000000000000000000000000000000000006"],"56":["","0x55d398326f99059ff775485246999027b3197955","0x8ac76a51cc950d9822d68b83fe1ad97b32cd580d","0x1af3f329e8be154074d8769d1ffa4ee058b1dbc3","0xbb4cdb9cbd36b01bd1cbaebf2de08d9173bc095c"],"137":["","0xc2132d05d31c914a87c6611c10748aeb04b58e8f","0x3c499c542cef5e3811e1192ce70d8cc03d5c3359","0x8f3cf7ad23cd3cadbd9735aff958023239c6a063","0x7ceb23fd6bc0add59e62ac25578270cff1b9f619"],"8453":["","0xfde4c96c8593536e31f229ea8f37b2ada2699bb2","0x833589fcd6edb6e08f4c7c32d4f71b54bda02913","0x50c5725949a6f0c72e6c4a641f24049a917db0cb","0x4200000000000000000000000000000000000006","0x506beb7965fc7053059006c7ab4c62c02c2d989f"],"42161":["","0x912ce59144191c1204e64559fe8253a0e49e6548","0xfd086bc7cd5c481dcc9c85ebe478a1c0b69fcbb9","0xaf88d065e77c8cc2239327c5edb3a432268e5831","0xda10009cbd5d07dd0cecc66161fc93d7c9000da1"],"43114":["","0x9702230a8ea53601f5cd2dc00fdbc13d4df4a8c7","0xb97ef9ef8734c71904d8002f8b6bc66dd9c48a6e","0xd586e7f844cea2f87f50152665bcbc2c279d8d70","0xb31f66aa3c1e785363f0875a1b74e27b85fd66c7"],"7565164":["","So11111111111111111111111111111111111111112","HAqD46mR4LgY3aJiMZSabfefZoysG3Uuj6wn2ZKYE14v","Es9vMFrzaCERmJfrF4H2FYD4KCoNkY11McCe8BenwNYB","EPjFWdd5AufqSSqeM2qN1xzybapC8G4wEGGkZwyTDt1v"]}}'') @
       [CHR 0x22] @ ''}''\<close>
  unfolding WIDGET_CONFIG_def stringify_supported_chains
  by (simp add: getReferralKey_def getAffiliateFeeRecipient_def
      SUPPORTED_CHAINS_EVM_def SUPPORTED_CHAINS_SOLANA_def
      DEBRIDGE_REFERRAL_CODE_def EVM_RECIPIENT_def JUPITER_REFERRAL_LINK_def
      JUPITER_REFERRAL_PUBKEY_def quote_def quote_char_def toString_def digits.simps)

theorem C9_witness:
  \<open>\<exists>config. WIDGET_CONFIG = Inr config \<and> hd (JSON_stringify config) = CHR ''{''\<close>
  using C9_widget_config_serialization by auto

end
